theory Spec2Isabelle
  imports Complex_Main "HOL-Library.Word"
begin

section \<open>Protocol engine of the Vevor heater BLE client (src/src/heater.py)\<close>

text \<open>
  Python integers are modelled as \<open>int\<close>, a \<open>bytearray\<close> as a list of 8-bit words,
  \<open>None\<close>-able attributes as \<open>option\<close>, and a raised exception as the left summand of
  a result \<open>exn + 'a\<close>. Log calls have no effect on any returned value and are left out.
\<close>

type_synonym byte = "8 word"
type_synonym bytearray = "byte list"

datatype exn = StructError | ValueError | IndexError | TransportError

subsection \<open>Enumerations\<close>

datatype RequestType = READ_STATUS | SET_OP_MODE | TURN_ON_OFF | SET_HEATING_INTENSITY

datatype PowerStatus = OFF | RUNNING | ERROR

datatype OperationalStatus = WARMUP | SELF_TEST_RUNNING | IGNITION | HEATING | SHUTTING_DOWN

datatype OperationalMode = POWER_LEVEL | TARGET_TEMPERATURE

datatype HeaterError = NO_ERROR | POWER_SUPPLY_UNDERVOLTAGE | POWER_SUPPLY_OVERVOLTAGE
  | IGNITION_COIL_FAILURE | FUEL_PUMP_FAILURE | HIGH_TEMPERATURE_ALARM | FAN_FAILURE
  | CABLE_DAMAGE | COMBUSTION_FAILURE | SENSOR_FAILURE | IGNITION_FAILURE

text \<open>
  Calling an Enum class on an integer looks the member up by value and raises
  \<open>ValueError\<close> when no member has that value.
\<close>

definition PowerStatus_of :: "int \<Rightarrow> exn + PowerStatus" where
  "PowerStatus_of v =
     (if v = 0 then Inr OFF else if v = 1 then Inr RUNNING
      else if v = 2 then Inr ERROR else Inl ValueError)"

definition OperationalStatus_of :: "int \<Rightarrow> exn + OperationalStatus" where
  "OperationalStatus_of v =
     (if v = 0 then Inr WARMUP else if v = 1 then Inr SELF_TEST_RUNNING
      else if v = 2 then Inr IGNITION else if v = 3 then Inr HEATING
      else if v = 4 then Inr SHUTTING_DOWN else Inl ValueError)"

definition OperationalMode_of :: "int \<Rightarrow> exn + OperationalMode" where
  "OperationalMode_of v =
     (if v = 1 then Inr POWER_LEVEL else if v = 2 then Inr TARGET_TEMPERATURE
      else Inl ValueError)"

definition OperationalMode_value :: "OperationalMode \<Rightarrow> int" where
  "OperationalMode_value m = (case m of POWER_LEVEL \<Rightarrow> 1 | TARGET_TEMPERATURE \<Rightarrow> 2)"

definition HeaterError_of :: "int \<Rightarrow> exn + HeaterError" where
  "HeaterError_of v =
     (if v = 0 then Inr NO_ERROR else if v = 1 then Inr POWER_SUPPLY_UNDERVOLTAGE
      else if v = 2 then Inr POWER_SUPPLY_OVERVOLTAGE
      else if v = 3 then Inr IGNITION_COIL_FAILURE
      else if v = 4 then Inr FUEL_PUMP_FAILURE
      else if v = 5 then Inr HIGH_TEMPERATURE_ALARM
      else if v = 6 then Inr FAN_FAILURE else if v = 7 then Inr CABLE_DAMAGE
      else if v = 8 then Inr COMBUSTION_FAILURE else if v = 9 then Inr SENSOR_FAILURE
      else if v = 10 then Inr IGNITION_FAILURE else Inl ValueError)"

subsection \<open>The raw frame: VevorHeaterStatusBle\<close>

record VevorHeaterStatusBle =
  magic_constant :: int
  request_type :: int
  power_status :: int
  error :: int
  operational_status :: int
  elevation :: int
  operational_mode :: int
  target_temperature_or_level :: int
  current_power_level :: int
  input_voltage_decivolts :: int
  combustion_temperature :: int
  room_temperature :: int
  display_error :: int
  checksum :: int

text \<open>\<open>x in range(lo, hi)\<close> for an integer \<open>x\<close>.\<close>

definition in_range :: "int \<Rightarrow> int \<Rightarrow> int \<Rightarrow> bool" where
  "in_range x lo hi = (lo \<le> x \<and> x < hi)"

text \<open>
  The range checks of \<open>_verify\<close> (lines 127 to 150), in the order of the source; the
  result is the list of field names appended to \<open>_verification_errors\<close>. Line 128 is the
  chained comparison \<open>self.request_type <= 0 not in range(1, 5)\<close>, which Python reads as
  \<open>self.request_type <= 0 and 0 not in range(1, 5)\<close>.
\<close>

definition allowed_target_range :: "int \<Rightarrow> int \<times> int" where
  "allowed_target_range mode =
     (if mode = 1 then (1, 11) else if mode = 2 then (8, 37) else (0, 1))"

definition range_errors :: "VevorHeaterStatusBle \<Rightarrow> string list" where
  "range_errors s =
     (if power_status s \<noteq> 0 then
        (if request_type s \<le> 0 \<and> \<not> in_range 0 1 5 then [''request_type''] else []) @
        (if power_status s \<notin> {0, 1, 2} then [''power_status''] else []) @
        (if \<not> in_range (error s) 0 11 then [''error''] else []) @
        (if \<not> in_range (operational_status s) 0 5 then [''operational_status''] else []) @
        (if operational_mode s \<notin> {0, 1, 2} then [''operational_mode'']
         else (if \<not> in_range (target_temperature_or_level s)
                     (fst (allowed_target_range (operational_mode s)))
                     (snd (allowed_target_range (operational_mode s)))
               then [''target_temperature_or_level''] else [])) @
        (if operational_mode s = 2 \<and> \<not> in_range (current_power_level s) 0 10
         then [''current_power_level''] else []) @
        (if \<not> in_range (display_error s) 0 11 then [''display_error''] else [])
      else [])"

definition calculated_checksum :: "VevorHeaterStatusBle \<Rightarrow> int" where
  "calculated_checksum s =
     (power_status s + error s + operational_status s + elevation s + operational_mode s
      + target_temperature_or_level s + current_power_level s + input_voltage_decivolts s
      + combustion_temperature s + room_temperature s + display_error s) mod 256"

definition verification_errors :: "VevorHeaterStatusBle \<Rightarrow> string list" where
  "verification_errors s =
     range_errors s @ (if calculated_checksum s \<noteq> checksum s then [''checksum''] else [])"

definition verify :: "VevorHeaterStatusBle \<Rightarrow> bool" where
  "verify s = (verification_errors s = [])"

text \<open>
  \<open>struct.unpack("<HBBBBHBBBHHHBxB", buffer)\<close>: little-endian, no alignment; the format
  takes 2+1+1+1+1+2+1+1+1+2+2+2+1+1+1 = 20 bytes and yields 14 values (the pad byte
  \<open>x\<close> at offset 18 yields none). A buffer of any other length raises \<open>struct.error\<close>.
\<close>

definition u16le :: "byte \<Rightarrow> byte \<Rightarrow> int" where
  "u16le lo hi = uint lo + 256 * uint hi"

definition struct_unpack :: "bytearray \<Rightarrow> exn + VevorHeaterStatusBle" where
  "struct_unpack b =
     (if length b \<noteq> 20 then Inl StructError
      else Inr \<lparr> magic_constant = u16le (b ! 0) (b ! 1),
                 request_type = uint (b ! 2),
                 power_status = uint (b ! 3),
                 error = uint (b ! 4),
                 operational_status = uint (b ! 5),
                 elevation = u16le (b ! 6) (b ! 7),
                 operational_mode = uint (b ! 8),
                 target_temperature_or_level = uint (b ! 9),
                 current_power_level = uint (b ! 10),
                 input_voltage_decivolts = u16le (b ! 11) (b ! 12),
                 combustion_temperature = u16le (b ! 13) (b ! 14),
                 room_temperature = u16le (b ! 15) (b ! 16),
                 display_error = uint (b ! 17),
                 checksum = uint (b ! 19) \<rparr>)"

definition from_ble_data_array :: "bytearray \<Rightarrow> exn + VevorHeaterStatusBle option" where
  "from_ble_data_array buffer =
     (case struct_unpack buffer of
        Inl e \<Rightarrow> Inl e
      | Inr result \<Rightarrow> Inr (if verify result then Some result else None))"

subsection \<open>The domain record: VevorHeaterStatus\<close>

text \<open>
  Every attribute defaults to \<open>None\<close>. The attributes that share a name with one of the
  raw frame carry the suffix \<open>_v\<close>. \<open>float(n)\<close> of an integer below \<open>2 ^ 53\<close> is exact;
  the quotient \<open>float(n) / 10\<close> is kept as the exact real, without the rounding of the
  binary format.
\<close>

record VevorHeaterStatus =
  power_status_v :: "PowerStatus option"
  operational_mode_v :: "OperationalMode option"
  operational_status_v :: "OperationalStatus option"
  elevation_v :: "real option"
  target_temperature :: "int option"
  target_power_level :: "int option"
  current_power_level_v :: "int option"
  input_voltage :: "real option"
  combustion_temperature_v :: "int option"
  room_temperature_v :: "int option"
  error_v :: "HeaterError option"

definition off_status :: VevorHeaterStatus where
  "off_status =
     \<lparr> power_status_v = Some OFF, operational_mode_v = None, operational_status_v = None,
       elevation_v = None, target_temperature = None, target_power_level = None,
       current_power_level_v = None, input_voltage = None, combustion_temperature_v = None,
       room_temperature_v = None, error_v = None \<rparr>"

definition bindE :: "exn + 'a \<Rightarrow> ('a \<Rightarrow> exn + 'b) \<Rightarrow> exn + 'b" where
  "bindE r f = (case r of Inl e \<Rightarrow> Inl e | Inr x \<Rightarrow> f x)"

text \<open>
  Line 76 reads \<open>if OperationalMode == OperationalMode.TARGET_TEMPERATURE\<close>: its left
  operand is the Enum class object, not the local \<open>opmode\<close>. A class is never equal to
  one of its members, whatever the frame holds.
\<close>

definition OperationalMode_class_eq :: "OperationalMode \<Rightarrow> bool" where
  "OperationalMode_class_eq member = False"

definition from_ble_status :: "VevorHeaterStatusBle \<Rightarrow> exn + VevorHeaterStatus" where
  "from_ble_status status_ble =
     (if power_status status_ble = 0 then Inr off_status
      else
        bindE (if operational_mode status_ble \<noteq> 0
               then map_sum id Some (OperationalMode_of (operational_mode status_ble))
               else Inr None) (\<lambda>opmode.
        let target_temp_or_level = target_temperature_or_level status_ble;
            current = (if OperationalMode_class_eq TARGET_TEMPERATURE
                       then current_power_level status_ble + 1
                       else target_temp_or_level)
        in
        bindE (PowerStatus_of (power_status status_ble)) (\<lambda>ps.
        bindE (OperationalStatus_of (operational_status status_ble)) (\<lambda>os.
        bindE (if display_error status_ble \<noteq> 0
               then HeaterError_of (display_error status_ble)
               else Inr NO_ERROR) (\<lambda>err.
        Inr \<lparr> power_status_v = Some ps,
              operational_mode_v = opmode,
              operational_status_v = Some os,
              elevation_v = Some (real_of_int (elevation status_ble)),
              target_temperature =
                (if opmode = Some TARGET_TEMPERATURE then Some target_temp_or_level else None),
              target_power_level =
                (if opmode = Some POWER_LEVEL then Some target_temp_or_level else None),
              current_power_level_v = Some current,
              input_voltage = Some (real_of_int (input_voltage_decivolts status_ble) / 10),
              combustion_temperature_v = Some (combustion_temperature status_ble),
              room_temperature_v = Some (room_temperature status_ble),
              error_v = Some err \<rparr>)))))"

subsection \<open>Outgoing command frames\<close>

text \<open>
  \<open>bytearray(iterable)\<close> raises \<open>ValueError\<close> unless every item is in \<open>range(256)\<close>.
  \<open>set_checksum\<close> is the pair of statements \<open>checksum = sum(data[2:]) % 256\<close> and
  \<open>data[-1] = checksum\<close> shared by \<open>_set_operational_mode\<close> and \<open>_set_target\<close>.
\<close>

definition bytearray_of :: "int list \<Rightarrow> exn + bytearray" where
  "bytearray_of xs =
     (if list_all (\<lambda>x. in_range x 0 256) xs then Inr (map word_of_int xs)
      else Inl ValueError)"

definition set_checksum :: "bytearray \<Rightarrow> exn + bytearray" where
  "set_checksum data =
     (let checksum = sum_list (map uint (drop 2 data)) mod 256
      in if data = [] then Inl IndexError
         else Inr (data[length data - 1 := word_of_int checksum]))"

definition set_operational_mode_frame :: "OperationalMode \<Rightarrow> exn + bytearray" where
  "set_operational_mode_frame mode =
     bindE (bytearray_of [0xAA, 0x55, 0x0C, 0x22, 0x02, OperationalMode_value mode, 0x00, 0x00])
       set_checksum"

definition set_target_frame :: "int \<Rightarrow> exn + bytearray" where
  "set_target_frame target =
     bindE (bytearray_of [0xAA, 0x55, 0x0C, 0x22, 0x04, target, 0x00, 0x00]) set_checksum"

definition refresh_status_frame :: bytearray where
  "refresh_status_frame = [0xAA, 0x55, 0x0C, 0x22, 0x01, 0x00, 0x00, 0x2F]"

definition turn_on_frame :: bytearray where
  "turn_on_frame = [0xAA, 0x55, 0x0C, 0x22, 0x03, 0x01, 0x00, 0x32]"

definition turn_off_frame :: bytearray where
  "turn_off_frame = [0xAA, 0x55, 0x0C, 0x22, 0x03, 0x00, 0x00, 0x31]"

text \<open>
  The layout the specification gives for an outgoing frame, with
  \<open>checksum = sum(bytes[2:7]) mod 256\<close>; the frames built by the code are compared
  with it below.
\<close>

definition spec_outgoing_frame :: "int \<Rightarrow> int \<Rightarrow> bytearray" where
  "spec_outgoing_frame rt param =
     [0xAA, 0x55, 0x0C, 0x22, word_of_int rt, word_of_int param, 0x00,
      word_of_int ((0x0C + 0x22 + rt + param + 0x00) mod 256)]"

definition spec_checksum_ok :: "bytearray \<Rightarrow> bool" where
  "spec_checksum_ok frame =
     (length frame = 8 \<and>
      uint (frame ! 7) = sum_list (map uint (take 5 (drop 2 frame))) mod 256)"

subsection \<open>The command session: VevorDevice\<close>

text \<open>
  \<open>command_lock\<close> is created once and never reassigned; the model runs one call at a
  time, so the lock is always free on entry and is not part of the state. The BLE stack
  (\<open>establish_connection\<close>, \<open>start_notify\<close>, \<open>write_gatt_char\<close>, \<open>stop_notify\<close>,
  \<open>disconnect\<close>) is outside the source and is given as an environment: \<open>failure\<close> says
  that one of these awaits raises, \<open>notifications\<close> lists the payloads the stack hands to
  the notification handler, in order, while the handler is subscribed.
\<close>

record VevorDevice =
  name :: "string option"
  address :: "string option"
  status :: "VevorHeaterStatus option"

record transport =
  failure :: bool
  notifications :: "bytearray list"

text \<open>
  The two variables the closure \<open>notification_handler\<close> shares with
  \<open>_send_ble_command\<close>: the nonlocal \<open>response\<close> and the event
  \<open>response_received_latch\<close>.
\<close>

record exchange =
  response :: "VevorHeaterStatus option"
  response_received_latch :: bool

text \<open>
  Lines 192 to 202. \<open>data[4]\<close> is read only in the \<open>elif\<close> branch and raises
  \<open>IndexError\<close> on a frame shorter than five bytes. The call
  \<open>response_received_latch.set()\<close> on line 202 is outside the conditional, so it is
  reached on all three branches.
\<close>

definition notification_handler :: "bytearray \<Rightarrow> exchange \<Rightarrow> bytearray \<Rightarrow> exn + exchange" where
  "notification_handler data x response_data =
     bindE (from_ble_data_array response_data) (\<lambda>status.
       case status of
         None \<Rightarrow> Inr (x\<lparr>response_received_latch := True\<rparr>)
       | Some st \<Rightarrow>
           if length data \<le> 4 then Inl IndexError
           else if request_type st \<noteq> uint (data ! 4)
           then Inr (x\<lparr>response_received_latch := True\<rparr>)
           else bindE (from_ble_status st) (\<lambda>r.
                  Inr (x\<lparr>response := Some r, response_received_latch := True\<rparr>)))"

text \<open>
  The handler runs once for each delivered payload. An exception that escapes it is
  raised inside the BLE stack's dispatcher, and what the stack does with it is not in the
  source: the model stops the exchange there and reports it, and the properties of
  exchanges below are stated for payloads of 20 bytes, on which the handler never raises.
\<close>

fun deliver :: "bytearray \<Rightarrow> exchange \<Rightarrow> bytearray list \<Rightarrow> exn + exchange" where
  "deliver data x [] = Inr x"
| "deliver data x (n # ns) =
     (case notification_handler data x n of
        Inl e \<Rightarrow> Inl e
      | Inr x' \<Rightarrow> deliver data x' ns)"

text \<open>
  Lines 183 to 210. The outer \<open>option\<close> is \<open>None\<close> when
  \<open>await response_received_latch.wait()\<close> never returns, which is the case when the
  latch is never set; otherwise the call returns the value of \<open>response\<close>.
\<close>

definition send_ble_command ::
  "VevorDevice \<Rightarrow> string \<Rightarrow> bytearray \<Rightarrow> transport \<Rightarrow> (exn + VevorHeaterStatus option) option" where
  "send_ble_command self device_address data env =
     (if Some device_address \<noteq> address self then Some (Inl ValueError)
      else if failure env then Some (Inl TransportError)
      else case deliver data \<lparr>response = None, response_received_latch = False\<rparr>
                  (notifications env) of
             Inl e \<Rightarrow> Some (Inl e)
           | Inr x \<Rightarrow> if response_received_latch x then Some (Inr (response x)) else None)"








text \<open>
  What the claims call a validated, request-type-matching response: a payload that
  \<open>from_ble_data_array\<close> accepts and whose \<open>request_type\<close> equals byte 4 of the pending
  frame, with the status decoded from it; \<open>last_matching\<close> is the status of the last
  such payload of a list, if there is one.
\<close>

definition matching_status :: "bytearray \<Rightarrow> bytearray \<Rightarrow> VevorHeaterStatus option" where
  "matching_status data n =
     (case from_ble_data_array n of
        Inr (Some st) \<Rightarrow>
          (if 4 < length data \<and> request_type st = uint (data ! 4)
           then (case from_ble_status st of Inr h \<Rightarrow> Some h | Inl e \<Rightarrow> None)
           else None)
      | _ \<Rightarrow> None)"

definition last_matching :: "bytearray \<Rightarrow> bytearray list \<Rightarrow> VevorHeaterStatus option" where
  "last_matching data ns =
     (case List.map_filter (matching_status data) ns of [] \<Rightarrow> None | hs \<Rightarrow> Some (last hs))"


section \<open>Properties\<close>

lemmas codec_defs = from_ble_data_array_def struct_unpack_def u16le_def verify_def
  verification_errors_def range_errors_def in_range_def allowed_target_range_def
  calculated_checksum_def

lemmas status_defs = from_ble_status_def bindE_def PowerStatus_of_def OperationalStatus_of_def
  OperationalMode_of_def HeaterError_of_def OperationalMode_class_eq_def off_status_def

subsection \<open>Outgoing frames\<close>

text \<open>
  Claim C7. Every outgoing command frame is the 8-byte sequence
  \<open>[0xAA, 0x55, 0x0C, 0x22, request_type, param, 0x00, checksum]\<close> with
  \<open>checksum = sum(bytes[2:7]) mod 256\<close>: for both operational modes, for every target
  value from 0 to 255, and for the three literal frames of \<open>turn_on\<close>, \<open>turn_off\<close> and
  \<open>refresh_status\<close>, whose bytes are the ones the specification lists.
\<close>

theorem command_frames_follow_layout:
  "set_operational_mode_frame mode = Inr (spec_outgoing_frame 2 (OperationalMode_value mode))
   \<and> spec_checksum_ok (spec_outgoing_frame 2 (OperationalMode_value mode))
   \<and> (0 \<le> target \<and> target < 256 \<longrightarrow>
        set_target_frame target = Inr (spec_outgoing_frame 4 target)
        \<and> spec_checksum_ok (spec_outgoing_frame 4 target))
   \<and> turn_on_frame = spec_outgoing_frame 3 1
   \<and> turn_on_frame = [0xAA, 0x55, 0x0C, 0x22, 0x03, 0x01, 0x00, 0x32]
   \<and> spec_checksum_ok turn_on_frame
   \<and> turn_off_frame = spec_outgoing_frame 3 0
   \<and> turn_off_frame = [0xAA, 0x55, 0x0C, 0x22, 0x03, 0x00, 0x00, 0x31]
   \<and> spec_checksum_ok turn_off_frame
   \<and> refresh_status_frame = spec_outgoing_frame 1 0
   \<and> refresh_status_frame = [0xAA, 0x55, 0x0C, 0x22, 0x01, 0x00, 0x00, 0x2F]
   \<and> spec_checksum_ok refresh_status_frame"
proof -
  have m: "set_operational_mode_frame mode = Inr (spec_outgoing_frame 2 (OperationalMode_value mode))"
    by (cases mode) (simp_all add: set_operational_mode_frame_def spec_outgoing_frame_def
        bytearray_of_def in_range_def bindE_def set_checksum_def OperationalMode_value_def)
  have mc: "spec_checksum_ok (spec_outgoing_frame 2 (OperationalMode_value mode))"
    by (cases mode) (simp_all add: spec_checksum_ok_def spec_outgoing_frame_def
        OperationalMode_value_def)
  have t: "set_target_frame target = Inr (spec_outgoing_frame 4 target)"
    if "0 \<le> target" "target < 256"
    using that
    by (simp add: set_target_frame_def spec_outgoing_frame_def bytearray_of_def in_range_def
        bindE_def set_checksum_def uint_word_of_int)
  have tc: "spec_checksum_ok (spec_outgoing_frame 4 target)" if "0 \<le> target" "target < 256"
    using that
    by (simp add: spec_checksum_ok_def spec_outgoing_frame_def uint_word_of_int add.assoc)
  have lits: "turn_on_frame = spec_outgoing_frame 3 1" "turn_off_frame = spec_outgoing_frame 3 0"
    "refresh_status_frame = spec_outgoing_frame 1 0"
    by (simp_all add: refresh_status_frame_def turn_on_frame_def turn_off_frame_def
        spec_outgoing_frame_def)
  have litc: "spec_checksum_ok turn_on_frame" "spec_checksum_ok turn_off_frame"
    "spec_checksum_ok refresh_status_frame"
    by (simp_all add: refresh_status_frame_def turn_on_frame_def turn_off_frame_def
        spec_checksum_ok_def)
  show ?thesis
    using m mc t tc lits litc
    by (simp add: refresh_status_frame_def turn_on_frame_def turn_off_frame_def)
qed

theorem command_frames_follow_layout_witness:
  "(0::int) \<le> 20 \<and> (20::int) < 256
   \<and> set_target_frame 20 = Inr [0xAA, 0x55, 0x0C, 0x22, 0x04, 0x14, 0x00, 0x46]
   \<and> set_operational_mode_frame TARGET_TEMPERATURE
       = Inr [0xAA, 0x55, 0x0C, 0x22, 0x02, 0x02, 0x00, 0x32]"
  using command_frames_follow_layout [of TARGET_TEMPERATURE 20]
  by (simp add: spec_outgoing_frame_def OperationalMode_value_def)

subsection \<open>What verification guarantees\<close>

lemma verify_ranges:
  assumes "verify s" and "power_status s \<noteq> 0"
  shows "(power_status s = 1 \<or> power_status s = 2)
         \<and> 0 \<le> operational_status s \<and> operational_status s < 5
         \<and> (operational_mode s = 0 \<and> target_temperature_or_level s = 0
             \<or> operational_mode s = 1 \<and> 1 \<le> target_temperature_or_level s
                 \<and> target_temperature_or_level s \<le> 10
             \<or> operational_mode s = 2 \<and> 8 \<le> target_temperature_or_level s
                 \<and> target_temperature_or_level s \<le> 36)
         \<and> 0 \<le> display_error s \<and> display_error s < 11"
  using assms
  by (simp add: verify_def verification_errors_def range_errors_def in_range_def
      allowed_target_range_def split: if_splits)

lemma PowerStatus_of_total: "v = 1 \<or> v = 2 \<Longrightarrow> \<exists>ps. PowerStatus_of v = Inr ps"
  by (auto simp: PowerStatus_of_def)

lemma OperationalStatus_of_total:
  "0 \<le> v \<Longrightarrow> v < 5 \<Longrightarrow> \<exists>os. OperationalStatus_of v = Inr os"
  by (simp add: OperationalStatus_of_def)

lemma HeaterError_of_total: "0 \<le> v \<Longrightarrow> v < 11 \<Longrightarrow> \<exists>e. HeaterError_of v = Inr e"
  by (simp add: HeaterError_of_def) arith

lemma OperationalMode_of_total:
  "OperationalMode_of 1 = Inr POWER_LEVEL" "OperationalMode_of 2 = Inr TARGET_TEMPERATURE"
  by (simp_all add: OperationalMode_of_def)

text \<open>The status built from a verified frame of a device that is not off.\<close>

lemma from_ble_status_on:
  assumes "verify s" and "power_status s \<noteq> 0"
  shows "\<exists>ps os err.
           PowerStatus_of (power_status s) = Inr ps
         \<and> OperationalStatus_of (operational_status s) = Inr os
         \<and> HeaterError_of (display_error s) = Inr err
         \<and> from_ble_status s = Inr
             \<lparr> power_status_v = Some ps,
               operational_mode_v =
                 (if operational_mode s = 1 then Some POWER_LEVEL
                  else if operational_mode s = 2 then Some TARGET_TEMPERATURE else None),
               operational_status_v = Some os,
               elevation_v = Some (real_of_int (elevation s)),
               target_temperature =
                 (if operational_mode s = 2 then Some (target_temperature_or_level s) else None),
               target_power_level =
                 (if operational_mode s = 1 then Some (target_temperature_or_level s) else None),
               current_power_level_v = Some (target_temperature_or_level s),
               input_voltage = Some (real_of_int (input_voltage_decivolts s) / 10),
               combustion_temperature_v = Some (combustion_temperature s),
               room_temperature_v = Some (room_temperature s),
               error_v = Some err \<rparr>"
proof -
  note r = verify_ranges [OF assms]
  obtain ps where ps: "PowerStatus_of (power_status s) = Inr ps"
    using r PowerStatus_of_total by blast
  obtain os where os: "OperationalStatus_of (operational_status s) = Inr os"
    using r OperationalStatus_of_total by blast
  obtain err where err: "HeaterError_of (display_error s) = Inr err"
    using r HeaterError_of_total by blast
  have err0: "display_error s = 0 \<Longrightarrow> err = NO_ERROR"
    using err by (simp add: HeaterError_of_def)
  have m: "operational_mode s = 0 \<or> operational_mode s = 1 \<or> operational_mode s = 2"
    using r by blast
  have "from_ble_status s = Inr
             \<lparr> power_status_v = Some ps,
               operational_mode_v =
                 (if operational_mode s = 1 then Some POWER_LEVEL
                  else if operational_mode s = 2 then Some TARGET_TEMPERATURE else None),
               operational_status_v = Some os,
               elevation_v = Some (real_of_int (elevation s)),
               target_temperature =
                 (if operational_mode s = 2 then Some (target_temperature_or_level s) else None),
               target_power_level =
                 (if operational_mode s = 1 then Some (target_temperature_or_level s) else None),
               current_power_level_v = Some (target_temperature_or_level s),
               input_voltage = Some (real_of_int (input_voltage_decivolts s) / 10),
               combustion_temperature_v = Some (combustion_temperature s),
               room_temperature_v = Some (room_temperature s),
               error_v = Some err \<rparr>"
    using m assms(2) ps os err err0
    by (auto simp: from_ble_status_def bindE_def OperationalMode_of_total
        OperationalMode_class_eq_def Let_def)
  then show ?thesis using ps os err by blast
qed

lemma from_ble_status_total: "verify s \<Longrightarrow> \<exists>h. from_ble_status s = Inr h"
  using from_ble_status_on [of s]
  by (cases "power_status s = 0") (auto simp: from_ble_status_def)

subsection \<open>Decoding status frames\<close>

text \<open>
  Claim C2, evaluated on the code. The 20-byte frame below is valid, reports
  \<open>power_status = 1\<close>, \<open>operational_mode = 2\<close> (TargetTemperature),
  \<open>target_temperature_or_level = 20\<close> and a raw \<open>current_power_level\<close> of 3. The claim
  asks for a domain \<open>current_power_level\<close> of \<open>3 + 1 = 4\<close>; the code returns 20, the
  target, because the test on line 76 is never true.
\<close>

theorem current_power_level_is_target_in_temperature_mode:
  "from_ble_data_array [0xAA, 0x55, 1, 1, 0, 3, 0, 0, 2, 20, 3, 120, 0, 200, 0, 18, 0, 0, 0, 111]
     = Inr (Some \<lparr>magic_constant = 21930, request_type = 1, power_status = 1,
          error = 0, operational_status = 3, elevation = 0,
          operational_mode = 2, target_temperature_or_level = 20,
          current_power_level = 3, input_voltage_decivolts = 120,
          combustion_temperature = 200, room_temperature = 18,
          display_error = 0, checksum = 111\<rparr>)
   \<and> from_ble_status \<lparr>magic_constant = 21930, request_type = 1, power_status = 1,
          error = 0, operational_status = 3, elevation = 0,
          operational_mode = 2, target_temperature_or_level = 20,
          current_power_level = 3, input_voltage_decivolts = 120,
          combustion_temperature = 200, room_temperature = 18,
          display_error = 0, checksum = 111\<rparr>
     = Inr \<lparr>power_status_v = Some RUNNING, operational_mode_v = Some TARGET_TEMPERATURE,
          operational_status_v = Some HEATING, elevation_v = Some 0,
          target_temperature = Some 20, target_power_level = None,
          current_power_level_v = Some 20, input_voltage = Some 12,
          combustion_temperature_v = Some 200, room_temperature_v = Some 18,
          error_v = Some NO_ERROR\<rparr>"
  by (simp add: codec_defs status_defs)

text \<open>
  Claim C3, evaluated on the code. A frame of a running device with \<open>request_type = 5\<close>,
  every other field in range and a correct checksum, passes verification with no error
  recorded and is returned; only \<open>request_type = 0\<close> is reported.
\<close>

theorem request_type_5_passes_verification:
  "from_ble_data_array [0xAA, 0x55, 5, 1, 0, 3, 0, 0, 2, 20, 3, 120, 0, 200, 0, 18, 0, 0, 0, 111]
     = Inr (Some \<lparr>magic_constant = 21930, request_type = 5, power_status = 1,
          error = 0, operational_status = 3, elevation = 0,
          operational_mode = 2, target_temperature_or_level = 20,
          current_power_level = 3, input_voltage_decivolts = 120,
          combustion_temperature = 200, room_temperature = 18,
          display_error = 0, checksum = 111\<rparr>)
   \<and> verification_errors \<lparr>magic_constant = 21930, request_type = 5, power_status = 1,
          error = 0, operational_status = 3, elevation = 0,
          operational_mode = 2, target_temperature_or_level = 20,
          current_power_level = 3, input_voltage_decivolts = 120,
          combustion_temperature = 200, room_temperature = 18,
          display_error = 0, checksum = 111\<rparr> = []
   \<and> verification_errors \<lparr>magic_constant = 21930, request_type = 0, power_status = 1,
          error = 0, operational_status = 3, elevation = 0,
          operational_mode = 2, target_temperature_or_level = 20,
          current_power_level = 3, input_voltage_decivolts = 120,
          combustion_temperature = 200, room_temperature = 18,
          display_error = 0, checksum = 111\<rparr> = [''request_type'']"
  by (simp add: codec_defs)

text \<open>
  Claim C4. A frame with \<open>power_status = 0\<close> whose checksum byte equals the sum of the
  eleven summed fields modulo 256 records no verification error, whatever its other
  fields hold; it is returned by \<open>from_ble_data_array\<close> and converted to the status
  that has \<open>power_status = OFF\<close> and every other attribute unset.
\<close>

theorem off_frame_decodes_to_off_sentinel:
  assumes "struct_unpack buf = Inr s" and "power_status s = 0"
    and "(power_status s + error s + operational_status s + elevation s + operational_mode s
          + target_temperature_or_level s + current_power_level s + input_voltage_decivolts s
          + combustion_temperature s + room_temperature s + display_error s) mod 256
         = checksum s"
  shows "verification_errors s = [] \<and> from_ble_data_array buf = Inr (Some s)
         \<and> from_ble_status s = Inr \<lparr>power_status_v = Some OFF, operational_mode_v = None,
          operational_status_v = None, elevation_v = None, target_temperature = None,
          target_power_level = None, current_power_level_v = None, input_voltage = None,
          combustion_temperature_v = None, room_temperature_v = None, error_v = None\<rparr>"
proof -
  have e: "verification_errors s = []"
    using assms(2,3)
    by (simp add: verification_errors_def range_errors_def calculated_checksum_def)
  then have "from_ble_data_array buf = Inr (Some s)"
    using assms(1) by (simp add: from_ble_data_array_def verify_def)
  moreover have "from_ble_status s = Inr off_status"
    using assms(2) by (simp add: from_ble_status_def)
  ultimately show ?thesis using e by (simp add: off_status_def)
qed

text \<open>
  An off frame whose remaining bytes are all out of their ranges (\<open>request_type = 9\<close>,
  \<open>error = 77\<close>, \<open>operational_mode = 7\<close>, \<open>display_error = 200\<close>) is decoded to the
  sentinel.
\<close>

theorem off_frame_decodes_to_off_sentinel_witness:
  "struct_unpack [0xAA, 0x55, 9, 0, 77, 66, 1, 2, 7, 99, 50, 1, 1, 2, 2, 3, 3, 200, 0xEE, 250]
     = Inr \<lparr>magic_constant = 21930, request_type = 9, power_status = 0, error = 77,
          operational_status = 66, elevation = 513, operational_mode = 7,
          target_temperature_or_level = 99, current_power_level = 50,
          input_voltage_decivolts = 257, combustion_temperature = 514,
          room_temperature = 771, display_error = 200, checksum = 250\<rparr>
   \<and> from_ble_data_array [0xAA, 0x55, 9, 0, 77, 66, 1, 2, 7, 99, 50, 1, 1, 2, 2, 3, 3, 200, 0xEE, 250]
     = Inr (Some \<lparr>magic_constant = 21930, request_type = 9, power_status = 0, error = 77,
          operational_status = 66, elevation = 513, operational_mode = 7,
          target_temperature_or_level = 99, current_power_level = 50,
          input_voltage_decivolts = 257, combustion_temperature = 514,
          room_temperature = 771, display_error = 200, checksum = 250\<rparr>)
   \<and> from_ble_status \<lparr>magic_constant = 21930, request_type = 9, power_status = 0, error = 77,
          operational_status = 66, elevation = 513, operational_mode = 7,
          target_temperature_or_level = 99, current_power_level = 50,
          input_voltage_decivolts = 257, combustion_temperature = 514,
          room_temperature = 771, display_error = 200, checksum = 250\<rparr>
     = Inr \<lparr>power_status_v = Some OFF, operational_mode_v = None,
          operational_status_v = None, elevation_v = None, target_temperature = None,
          target_power_level = None, current_power_level_v = None, input_voltage = None,
          combustion_temperature_v = None, room_temperature_v = None, error_v = None\<rparr>"
proof -
  have u: "struct_unpack [0xAA, 0x55, 9, 0, 77, 66, 1, 2, 7, 99, 50, 1, 1, 2, 2, 3, 3, 200, 0xEE, 250]
     = Inr \<lparr>magic_constant = 21930, request_type = 9, power_status = 0, error = 77,
          operational_status = 66, elevation = 513, operational_mode = 7,
          target_temperature_or_level = 99, current_power_level = 50,
          input_voltage_decivolts = 257, combustion_temperature = 514,
          room_temperature = 771, display_error = 200, checksum = 250\<rparr>"
    by (simp add: struct_unpack_def u16le_def)
  show ?thesis
    using u off_frame_decodes_to_off_sentinel [OF u] by simp
qed

text \<open>
  Claim C5. A frame whose checksum byte differs from the sum of the eleven summed
  fields modulo 256 is rejected, whether or not \<open>power_status\<close> is 0:
  \<open>from_ble_data_array\<close> returns \<open>None\<close>, and \<open>checksum\<close> is the last entry of the
  recorded verification errors.
\<close>

theorem checksum_mismatch_rejected:
  assumes "struct_unpack buf = Inr s"
    and "(power_status s + error s + operational_status s + elevation s + operational_mode s
          + target_temperature_or_level s + current_power_level s + input_voltage_decivolts s
          + combustion_temperature s + room_temperature s + display_error s) mod 256
         \<noteq> checksum s"
  shows "from_ble_data_array buf = Inr None \<and> \<not> verify s
         \<and> ''checksum'' \<in> set (verification_errors s)
         \<and> last (verification_errors s) = ''checksum''"
  using assms
  by (simp add: from_ble_data_array_def verify_def verification_errors_def
      calculated_checksum_def)

text \<open>The off frame above with its checksum byte changed from 250 to 251.\<close>

theorem checksum_mismatch_rejected_witness:
  "struct_unpack [0xAA, 0x55, 9, 0, 77, 66, 1, 2, 7, 99, 50, 1, 1, 2, 2, 3, 3, 200, 0xEE, 251]
     = Inr \<lparr>magic_constant = 21930, request_type = 9, power_status = 0, error = 77,
          operational_status = 66, elevation = 513, operational_mode = 7,
          target_temperature_or_level = 99, current_power_level = 50,
          input_voltage_decivolts = 257, combustion_temperature = 514,
          room_temperature = 771, display_error = 200, checksum = 251\<rparr>
   \<and> from_ble_data_array [0xAA, 0x55, 9, 0, 77, 66, 1, 2, 7, 99, 50, 1, 1, 2, 2, 3, 3, 200, 0xEE, 251] = Inr None
   \<and> verification_errors \<lparr>magic_constant = 21930, request_type = 9, power_status = 0, error = 77,
          operational_status = 66, elevation = 513, operational_mode = 7,
          target_temperature_or_level = 99, current_power_level = 50,
          input_voltage_decivolts = 257, combustion_temperature = 514,
          room_temperature = 771, display_error = 200, checksum = 251\<rparr> = [''checksum'']"
proof -
  have u: "struct_unpack [0xAA, 0x55, 9, 0, 77, 66, 1, 2, 7, 99, 50, 1, 1, 2, 2, 3, 3, 200, 0xEE, 251]
     = Inr \<lparr>magic_constant = 21930, request_type = 9, power_status = 0, error = 77,
          operational_status = 66, elevation = 513, operational_mode = 7,
          target_temperature_or_level = 99, current_power_level = 50,
          input_voltage_decivolts = 257, combustion_temperature = 514,
          room_temperature = 771, display_error = 200, checksum = 251\<rparr>"
    by (simp add: struct_unpack_def u16le_def)
  have e: "verification_errors \<lparr>magic_constant = 21930, request_type = 9, power_status = 0, error = 77,
          operational_status = 66, elevation = 513, operational_mode = 7,
          target_temperature_or_level = 99, current_power_level = 50,
          input_voltage_decivolts = 257, combustion_temperature = 514,
          room_temperature = 771, display_error = 200, checksum = 251\<rparr> = [''checksum'']"
    by (simp add: verification_errors_def range_errors_def calculated_checksum_def)
  show ?thesis
    using u e checksum_mismatch_rejected [OF u] by simp
qed

text \<open>
  Claim C6, as the code has it. The buffer length the code accepts is 20 bytes, the size
  of its unpack format, not 16; a buffer of any other length makes \<open>struct.unpack\<close> raise
  \<open>struct.error\<close>, which \<open>from_ble_data_array\<close> does not catch, so the failure is an
  exception and not a returned rejection. A buffer of exactly 20 bytes is never refused
  for its length: the call returns, with the frame or with \<open>None\<close>.
\<close>

theorem wrong_length_raises_struct_error:
  "(length buf \<noteq> 20 \<longrightarrow> from_ble_data_array buf = Inl StructError)
   \<and> (length buf = 20 \<longrightarrow> (\<exists>r. from_ble_data_array buf = Inr r))"
  by (simp add: from_ble_data_array_def struct_unpack_def)

theorem wrong_length_raises_struct_error_witness:
  "length ([] :: bytearray) \<noteq> 20 \<and> from_ble_data_array [] = Inl StructError
   \<and> length (replicate 20 (0::byte)) = 20
   \<and> (\<exists>r. from_ble_data_array (replicate 20 0) = Inr r)"
  using wrong_length_raises_struct_error [of "[]"]
    wrong_length_raises_struct_error [of "replicate 20 0"]
  by simp

text \<open>
  The statement with 16 bytes fails both ways: a buffer of 16 zero bytes raises, and a
  buffer of 20 zero bytes, whose length is not 16, is accepted.
\<close>

theorem length_16_raises_and_length_20_is_accepted:
  "length (replicate 16 (0::byte)) = 16
   \<and> from_ble_data_array (replicate 16 0) = Inl StructError
   \<and> length (replicate 20 (0::byte)) \<noteq> 16
   \<and> from_ble_data_array (replicate 20 0)
     = Inr (Some \<lparr>magic_constant = 0, request_type = 0, power_status = 0, error = 0,
          operational_status = 0, elevation = 0, operational_mode = 0,
          target_temperature_or_level = 0, current_power_level = 0,
          input_voltage_decivolts = 0, combustion_temperature = 0,
          room_temperature = 0, display_error = 0, checksum = 0\<rparr>)"
  by (simp add: codec_defs)

text \<open>
  Claim C8, as the code has it. For a verified frame of a device that is not off, the
  two target attributes follow \<open>operational_mode\<close>: mode 2 populates \<open>target_temperature\<close>
  alone, with a value from 8 to 36; mode 1 populates \<open>target_power_level\<close> alone, with a
  value from 1 to 10; mode 0, which verification admits with a target of 0, populates
  neither and leaves \<open>operational_mode\<close> unset.
\<close>

theorem targets_follow_mode:
  assumes "verify s" and "power_status s \<noteq> 0" and "from_ble_status s = Inr h"
  shows "operational_mode s = 2 \<and> operational_mode_v h = Some TARGET_TEMPERATURE
           \<and> target_power_level h = None
           \<and> target_temperature h = Some (target_temperature_or_level s)
           \<and> 8 \<le> target_temperature_or_level s \<and> target_temperature_or_level s \<le> 36
         \<or> operational_mode s = 1 \<and> operational_mode_v h = Some POWER_LEVEL
           \<and> target_temperature h = None
           \<and> target_power_level h = Some (target_temperature_or_level s)
           \<and> 1 \<le> target_temperature_or_level s \<and> target_temperature_or_level s \<le> 10
         \<or> operational_mode s = 0 \<and> operational_mode_v h = None
           \<and> target_temperature h = None \<and> target_power_level h = None"
  using from_ble_status_on [OF assms(1,2)] verify_ranges [OF assms(1,2)] assms(3)
  by auto

theorem targets_follow_mode_witness:
  "verify \<lparr>magic_constant = 21930, request_type = 1, power_status = 1,
          error = 0, operational_status = 3, elevation = 0,
          operational_mode = 2, target_temperature_or_level = 20,
          current_power_level = 3, input_voltage_decivolts = 120,
          combustion_temperature = 200, room_temperature = 18,
          display_error = 0, checksum = 111\<rparr>
   \<and> from_ble_status \<lparr>magic_constant = 21930, request_type = 1, power_status = 1,
          error = 0, operational_status = 3, elevation = 0,
          operational_mode = 2, target_temperature_or_level = 20,
          current_power_level = 3, input_voltage_decivolts = 120,
          combustion_temperature = 200, room_temperature = 18,
          display_error = 0, checksum = 111\<rparr>
     = Inr \<lparr>power_status_v = Some RUNNING, operational_mode_v = Some TARGET_TEMPERATURE,
          operational_status_v = Some HEATING, elevation_v = Some 0,
          target_temperature = Some 20, target_power_level = None,
          current_power_level_v = Some 20, input_voltage = Some 12,
          combustion_temperature_v = Some 200, room_temperature_v = Some 18,
          error_v = Some NO_ERROR\<rparr>"
proof -
  have v: "verify \<lparr>magic_constant = 21930, request_type = 1, power_status = 1,
          error = 0, operational_status = 3, elevation = 0,
          operational_mode = 2, target_temperature_or_level = 20,
          current_power_level = 3, input_voltage_decivolts = 120,
          combustion_temperature = 200, room_temperature = 18,
          display_error = 0, checksum = 111\<rparr>"
    by (simp add: codec_defs)
  have h: "from_ble_status \<lparr>magic_constant = 21930, request_type = 1, power_status = 1,
          error = 0, operational_status = 3, elevation = 0,
          operational_mode = 2, target_temperature_or_level = 20,
          current_power_level = 3, input_voltage_decivolts = 120,
          combustion_temperature = 200, room_temperature = 18,
          display_error = 0, checksum = 111\<rparr>
     = Inr \<lparr>power_status_v = Some RUNNING, operational_mode_v = Some TARGET_TEMPERATURE,
          operational_status_v = Some HEATING, elevation_v = Some 0,
          target_temperature = Some 20, target_power_level = None,
          current_power_level_v = Some 20, input_voltage = Some 12,
          combustion_temperature_v = Some 200, room_temperature_v = Some 18,
          error_v = Some NO_ERROR\<rparr>"
    by (simp add: status_defs)
  show ?thesis
    using v h targets_follow_mode [OF v _ h] by simp
qed

text \<open>
  With \<open>operational_mode = 0\<close> the frame below is valid and reports a running device,
  and neither target attribute of its status is populated.
\<close>

theorem mode_0_frame_has_no_target:
  "from_ble_data_array [0xAA, 0x55, 1, 1, 0, 3, 0, 0, 0, 0, 3, 120, 0, 200, 0, 18, 0, 0, 0, 89]
     = Inr (Some \<lparr>magic_constant = 21930, request_type = 1, power_status = 1,
          error = 0, operational_status = 3, elevation = 0,
          operational_mode = 0, target_temperature_or_level = 0,
          current_power_level = 3, input_voltage_decivolts = 120,
          combustion_temperature = 200, room_temperature = 18,
          display_error = 0, checksum = 89\<rparr>)
   \<and> from_ble_status \<lparr>magic_constant = 21930, request_type = 1, power_status = 1,
          error = 0, operational_status = 3, elevation = 0,
          operational_mode = 0, target_temperature_or_level = 0,
          current_power_level = 3, input_voltage_decivolts = 120,
          combustion_temperature = 200, room_temperature = 18,
          display_error = 0, checksum = 89\<rparr>
     = Inr \<lparr>power_status_v = Some RUNNING, operational_mode_v = None,
          operational_status_v = Some HEATING, elevation_v = Some 0,
          target_temperature = None, target_power_level = None,
          current_power_level_v = Some 0, input_voltage = Some 12,
          combustion_temperature_v = Some 200, room_temperature_v = Some 18,
          error_v = Some NO_ERROR\<rparr>"
  by (simp add: codec_defs status_defs)

text \<open>
  Claim C10. Converting a frame that passed verification never raises. For a device that
  is not off, each Enum lookup succeeds: \<open>power_status\<close>, \<open>operational_status\<close> and
  \<open>display_error\<close> have a member, \<open>operational_mode\<close> 1 or 2 has a member, and
  \<open>operational_mode\<close> 0 gives a status whose \<open>operational_mode\<close> and two target
  attributes are unset.
\<close>

theorem verified_frame_converts:
  assumes "verify s"
  shows "\<exists>h. from_ble_status s = Inr h
           \<and> (power_status s = 0 \<and> h = off_status
              \<or> (\<exists>ps os err.
                    PowerStatus_of (power_status s) = Inr ps \<and> power_status_v h = Some ps
                  \<and> OperationalStatus_of (operational_status s) = Inr os
                  \<and> operational_status_v h = Some os
                  \<and> HeaterError_of (display_error s) = Inr err \<and> error_v h = Some err
                  \<and> (operational_mode s = 0 \<and> operational_mode_v h = None
                       \<and> target_temperature h = None \<and> target_power_level h = None
                     \<or> (\<exists>m. OperationalMode_of (operational_mode s) = Inr m
                            \<and> operational_mode_v h = Some m))))"
proof (cases "power_status s = 0")
  case True
  then show ?thesis by (simp add: from_ble_status_def)
next
  case False
  from from_ble_status_on [OF assms False] obtain ps os err h where
    c: "PowerStatus_of (power_status s) = Inr ps"
       "OperationalStatus_of (operational_status s) = Inr os"
       "HeaterError_of (display_error s) = Inr err"
    and h: "from_ble_status s = Inr h"
       "power_status_v h = Some ps" "operational_status_v h = Some os" "error_v h = Some err"
       "operational_mode_v h = (if operational_mode s = 1 then Some POWER_LEVEL
                  else if operational_mode s = 2 then Some TARGET_TEMPERATURE else None)"
       "target_temperature h =
                 (if operational_mode s = 2 then Some (target_temperature_or_level s) else None)"
       "target_power_level h =
                 (if operational_mode s = 1 then Some (target_temperature_or_level s) else None)"
    by force
  have m: "operational_mode s = 0 \<or> operational_mode s = 1 \<or> operational_mode s = 2"
    using verify_ranges [OF assms False] by blast
  have "operational_mode s = 0 \<and> operational_mode_v h = None
          \<and> target_temperature h = None \<and> target_power_level h = None
        \<or> (\<exists>m. OperationalMode_of (operational_mode s) = Inr m \<and> operational_mode_v h = Some m)"
    using m h(5,6,7) by (auto simp: OperationalMode_of_total)
  then show ?thesis using c h(1-4) by blast
qed

theorem verified_frame_converts_witness:
  "verify \<lparr>magic_constant = 21930, request_type = 1, power_status = 1,
          error = 0, operational_status = 3, elevation = 0,
          operational_mode = 0, target_temperature_or_level = 0,
          current_power_level = 3, input_voltage_decivolts = 120,
          combustion_temperature = 200, room_temperature = 18,
          display_error = 0, checksum = 89\<rparr>
   \<and> (\<exists>h. from_ble_status \<lparr>magic_constant = 21930, request_type = 1, power_status = 1,
          error = 0, operational_status = 3, elevation = 0,
          operational_mode = 0, target_temperature_or_level = 0,
          current_power_level = 3, input_voltage_decivolts = 120,
          combustion_temperature = 200, room_temperature = 18,
          display_error = 0, checksum = 89\<rparr> = Inr h
        \<and> power_status_v h = Some RUNNING \<and> operational_mode_v h = None
        \<and> target_temperature h = None \<and> target_power_level h = None)"
proof -
  have v: "verify \<lparr>magic_constant = 21930, request_type = 1, power_status = 1,
          error = 0, operational_status = 3, elevation = 0,
          operational_mode = 0, target_temperature_or_level = 0,
          current_power_level = 3, input_voltage_decivolts = 120,
          combustion_temperature = 200, room_temperature = 18,
          display_error = 0, checksum = 89\<rparr>"
    by (simp add: codec_defs)
  show ?thesis
    using v verified_frame_converts [OF v]
    by (auto simp: PowerStatus_of_def OperationalMode_of_def)
qed

subsection \<open>The command session\<close>

text \<open>
  One run of the handler that returns has set the latch, and has replaced \<open>response\<close>
  exactly when the payload was a validated, request-type-matching one.
\<close>

lemma handler_Inr:
  assumes "notification_handler data x n = Inr x'"
  shows "x' = x\<lparr>response := (case matching_status data n of None \<Rightarrow> response x | Some h \<Rightarrow> Some h),
                 response_received_latch := True\<rparr>"
  using assms
  by (auto simp: notification_handler_def matching_status_def bindE_def
      split: sum.splits option.splits if_splits)

lemma handler_total:
  assumes "length n = 20" and "4 < length data"
  shows "\<exists>x'. notification_handler data x n = Inr x'"
proof -
  obtain s where u: "struct_unpack n = Inr s"
    using assms(1) by (simp add: struct_unpack_def)
  show ?thesis
  proof (cases "verify s")
    case True
    then obtain h where "from_ble_status s = Inr h"
      using from_ble_status_total by blast
    then show ?thesis
      using u True assms(2)
      by (simp add: notification_handler_def from_ble_data_array_def bindE_def)
  next
    case False
    then show ?thesis
      using u by (simp add: notification_handler_def from_ble_data_array_def bindE_def)
  qed
qed

lemma last_matching_Cons:
  "last_matching data (n # ns) =
     (case last_matching data ns of Some h \<Rightarrow> Some h | None \<Rightarrow> matching_status data n)"
  by (auto simp: last_matching_def split: option.splits list.splits)

lemma deliver_Inr:
  "deliver data x ns = Inr x' \<Longrightarrow>
     response x' = (case last_matching data ns of None \<Rightarrow> response x | Some h \<Rightarrow> Some h)
     \<and> response_received_latch x' = (response_received_latch x \<or> ns \<noteq> [])"
proof (induction ns arbitrary: x)
  case Nil
  then show ?case by (simp add: last_matching_def)
next
  case (Cons n ns)
  then obtain x1 where x1: "notification_handler data x n = Inr x1"
    and d: "deliver data x1 ns = Inr x'"
    by (auto split: sum.splits)
  note h = handler_Inr [OF x1]
  from Cons.IH [OF d] h show ?case
    by (auto simp: last_matching_Cons split: option.splits)
qed

lemma deliver_total:
  "list_all (\<lambda>m. length m = 20) ns \<Longrightarrow> 4 < length data \<Longrightarrow> \<exists>x'. deliver data x ns = Inr x'"
proof (induction ns arbitrary: x)
  case Nil
  then show ?case by simp
next
  case (Cons n ns)
  then obtain x1 where "notification_handler data x n = Inr x1"
    using handler_total [of n data x] by auto
  then show ?case using Cons by simp
qed

lemma send_returns:
  assumes "address self = Some a" and "\<not> failure env"
    and "notifications env \<noteq> []"
    and "list_all (\<lambda>m. length m = 20) (notifications env)" and "4 < length data"
  shows "send_ble_command self a data env = Some (Inr (last_matching data (notifications env)))"
proof -
  obtain x' where d: "deliver data \<lparr>response = None, response_received_latch = False\<rparr>
      (notifications env) = Inr x'"
    using deliver_total [OF assms(4,5)] by blast
  from deliver_Inr [OF d] assms(3) have "response_received_latch x'"
    and "response x' = last_matching data (notifications env)"
    by (auto split: option.splits)
  then show ?thesis
    using assms(1,2) d by (simp add: send_ble_command_def)
qed




text \<open>
  Claim C1, as the code has it. Over a working transport that delivers 20-byte payloads,
  a notification that fails validation, or whose \<open>request_type\<close> differs from byte 4 of
  the outgoing frame, leaves the pending \<open>response\<close> as it was but sets the latch like
  any other: the call does not go on waiting. It returns once a notification has been
  handled, with the status decoded from the last validated, request-type-matching
  notification handled while subscribed, and with \<open>None\<close> when there was none.
\<close>

theorem any_notification_resolves_send:
  assumes "address self = Some a" and "\<not> failure env" and "notifications env = n # ns"
    and "list_all (\<lambda>m. length m = 20) (n # ns)" and "4 < length data"
  shows "notification_handler data x n
           = Inr (x\<lparr>response := (case matching_status data n of
                                    None \<Rightarrow> response x | Some h \<Rightarrow> Some h),
                    response_received_latch := True\<rparr>)
         \<and> send_ble_command self a data env = Some (Inr (last_matching data (n # ns)))"
proof -
  have "length n = 20" using assms(4) by simp
  then obtain x' where "notification_handler data x n = Inr x'"
    using handler_total assms(5) by blast
  then have "notification_handler data x n
           = Inr (x\<lparr>response := (case matching_status data n of
                                    None \<Rightarrow> response x | Some h \<Rightarrow> Some h),
                    response_received_latch := True\<rparr>)"
    using handler_Inr by simp
  moreover have "send_ble_command self a data env
      = Some (Inr (last_matching data (notifications env)))"
    using assms by (intro send_returns) simp_all
  ultimately show ?thesis using assms(3) by simp
qed

text \<open>
  An exchange in which a frame with a wrong checksum is followed by a valid reply to
  \<open>refresh_status\<close>.
\<close>

theorem any_notification_resolves_send_witness:
  "send_ble_command \<lparr>name = None, address = Some ''heater'', status = None\<rparr> ''heater''
     refresh_status_frame
     \<lparr>failure = False, notifications = [[0xAA, 0x55, 9, 0, 77, 66, 1, 2, 7, 99, 50, 1, 1, 2, 2, 3, 3, 200, 0xEE, 251], [0xAA, 0x55, 1, 1, 0, 3, 0, 0, 2, 20, 3, 120, 0, 200, 0, 18, 0, 0, 0, 111]]\<rparr>
   = Some (Inr (Some \<lparr>power_status_v = Some RUNNING, operational_mode_v = Some TARGET_TEMPERATURE,
          operational_status_v = Some HEATING, elevation_v = Some 0,
          target_temperature = Some 20, target_power_level = None,
          current_power_level_v = Some 20, input_voltage = Some 12,
          combustion_temperature_v = Some 200, room_temperature_v = Some 18,
          error_v = Some NO_ERROR\<rparr>))
   \<and> notification_handler refresh_status_frame
       \<lparr>response = None, response_received_latch = False\<rparr> [0xAA, 0x55, 9, 0, 77, 66, 1, 2, 7, 99, 50, 1, 1, 2, 2, 3, 3, 200, 0xEE, 251]
     = Inr \<lparr>response = None, response_received_latch = True\<rparr>"
  using any_notification_resolves_send
    [of "\<lparr>name = None, address = Some ''heater'', status = None\<rparr>" "''heater''"
        "\<lparr>failure = False, notifications = [[0xAA, 0x55, 9, 0, 77, 66, 1, 2, 7, 99, 50, 1, 1, 2, 2, 3, 3, 200, 0xEE, 251], [0xAA, 0x55, 1, 1, 0, 3, 0, 0, 2, 20, 3, 120, 0, 200, 0, 18, 0, 0, 0, 111]]\<rparr>"
        "[0xAA, 0x55, 9, 0, 77, 66, 1, 2, 7, 99, 50, 1, 1, 2, 2, 3, 3, 200, 0xEE, 251]" "[[0xAA, 0x55, 1, 1, 0, 3, 0, 0, 2, 20, 3, 120, 0, 200, 0, 18, 0, 0, 0, 111]]" refresh_status_frame
        "\<lparr>response = None, response_received_latch = False\<rparr>"]
  by (simp add: last_matching_def matching_status_def codec_defs status_defs
      refresh_status_frame_def)

text \<open>
  The statement that such a notification does not resolve the call fails: when the only
  notification handled has a wrong checksum, or is a valid reply of request type 3 to a
  pending command of type 1, the call returns, with \<open>None\<close>.
\<close>

theorem invalid_notification_resolves_send:
  "from_ble_data_array [0xAA, 0x55, 9, 0, 77, 66, 1, 2, 7, 99, 50, 1, 1, 2, 2, 3, 3, 200, 0xEE, 251] = Inr None
   \<and> send_ble_command \<lparr>name = None, address = Some ''heater'', status = None\<rparr> ''heater''
       refresh_status_frame \<lparr>failure = False, notifications = [[0xAA, 0x55, 9, 0, 77, 66, 1, 2, 7, 99, 50, 1, 1, 2, 2, 3, 3, 200, 0xEE, 251]]\<rparr>
     = Some (Inr None)
   \<and> from_ble_data_array [0xAA, 0x55, 3, 1, 0, 3, 0, 0, 2, 20, 3, 120, 0, 200, 0, 18, 0, 0, 0, 111] = Inr (Some \<lparr>magic_constant = 21930, request_type = 3, power_status = 1,
          error = 0, operational_status = 3, elevation = 0,
          operational_mode = 2, target_temperature_or_level = 20,
          current_power_level = 3, input_voltage_decivolts = 120,
          combustion_temperature = 200, room_temperature = 18,
          display_error = 0, checksum = 111\<rparr>)
   \<and> send_ble_command \<lparr>name = None, address = Some ''heater'', status = None\<rparr> ''heater''
       refresh_status_frame \<lparr>failure = False, notifications = [[0xAA, 0x55, 3, 1, 0, 3, 0, 0, 2, 20, 3, 120, 0, 200, 0, 18, 0, 0, 0, 111]]\<rparr>
     = Some (Inr None)"
  by (simp add: send_ble_command_def notification_handler_def bindE_def codec_defs
      refresh_status_frame_def)



end
